theory Spec2Isabelle
  imports Main
begin

section \<open>Data model of \<open>jaxtyping/array_types.py\<close>\<close>

text \<open>
  Strings are ASCII strings (\<open>char list\<close>); code points beyond ASCII are outside the
  model. Python's unbounded integers are \<open>int\<close>. Every \<open>raise\<close> of the source and every
  exception its expressions can throw is a value of \<open>error\<close>.
\<close>

datatype value_error =
    Must_be_a_string
  | Commas_not_spaces
  | Multiple_variadic
  | Name_format_not_recognised string

datatype error =
    ValueError value_error
  | RuntimeError string
  | IndexError
  | TypeError
  | AttributeError
  | AssertionError

text \<open>
  The dimension objects: the two sentinels \<open>_anonymous_dim\<close> and
  \<open>_anonymous_variadic_dim\<close>, and the classes \<open>_NamedDim\<close>, \<open>_NamedVariadicDim\<close>
  and \<open>_FixedDim\<close> with their two fields.
\<close>

datatype dim =
    anonymous_dim
  | anonymous_variadic_dim
  | NamedDim string bool
  | NamedVariadicDim string bool
  | FixedDim int bool

text \<open>A memo value is an \<open>int\<close> (a named axis) or a tuple of them (a named variadic).\<close>

datatype memo_val = MInt int | MTuple "int list"

type_synonym memo = "string \<rightharpoonup> memo_val"

type_synonym dtype = string

datatype dtypes = any_dtype | Dtypes "dtype list"

text \<open>The class built by \<open>__getitem__\<close>: a subclass of \<open>AbstractArray\<close> with its name.\<close>

record array_cls =
  name :: string
  dtypes :: dtypes
  dims :: "dim list"
  index_variadic :: "int option"

text \<open>A subclass of \<open>AbstractDtype\<close>, as \<open>_make_dtype\<close> builds it.\<close>

record dtype_cls =
  cls_name :: string
  cls_dtypes :: dtypes

text \<open>
  The objects handed to \<open>isinstance\<close>: an array of the array library, with its shape
  and dtype, or some other Python value.
\<close>

datatype obj =
    NdArray "int list" dtype
  | PyNone
  | PyInt int
  | PyStr string
  | PyList "obj list"

fun is_ndarray :: "obj \<Rightarrow> bool" where
  "is_ndarray (NdArray shape dt) = True"
| "is_ndarray other = False"

section \<open>Python sequence operations\<close>

text \<open>A slice bound: negative bounds count from the end, and both are clamped.\<close>

definition slice_bound :: "int \<Rightarrow> int \<Rightarrow> int" where
  "slice_bound n k = (if k < 0 then max 0 (n + k) else min k n)"

definition py_slice :: "'a list \<Rightarrow> int option \<Rightarrow> int option \<Rightarrow> 'a list" where
  "py_slice xs lo hi =
     (let n = int (length xs);
          a = (case lo of None \<Rightarrow> 0 | Some l \<Rightarrow> slice_bound n l);
          b = (case hi of None \<Rightarrow> n | Some h \<Rightarrow> slice_bound n h)
      in take (nat (b - a)) (drop (nat a) xs))"

text \<open>Indexing: a negative index counts from the end; out of range raises.\<close>

definition py_index :: "'a list \<Rightarrow> int \<Rightarrow> error + 'a" where
  "py_index xs i =
     (let n = int (length xs); k = (if i < 0 then n + i else i)
      in if 0 \<le> k \<and> k < n then Inr (xs ! nat k) else Inl IndexError)"

section \<open>\<open>_check_dims\<close>\<close>

text \<open>
  One iteration of the loop of \<open>_check_dims\<close>. The result is the error raised, or
  whether the loop goes on (\<open>False\<close> is \<open>return False\<close>) with the memo as mutated.
  The sentinel \<open>_anonymous_variadic_dim\<close> has no attribute \<open>broadcastable\<close>; a
  \<open>_NamedVariadicDim\<close> fails the assertion of the last branch.
\<close>

fun check_dim :: "dim \<Rightarrow> int \<Rightarrow> memo \<Rightarrow> error + (bool \<times> memo)" where
  "check_dim anonymous_dim obj_size memo = Inr (True, memo)"
| "check_dim anonymous_variadic_dim obj_size memo = Inl AttributeError"
| "check_dim (FixedDim size' broadcastable) obj_size memo =
     (if broadcastable \<and> obj_size = 1 then Inr (True, memo)
      else if size' \<noteq> obj_size then Inr (False, memo)
      else Inr (True, memo))"
| "check_dim (NamedVariadicDim nm broadcastable) obj_size memo =
     (if broadcastable \<and> obj_size = 1 then Inr (True, memo)
      else Inl AssertionError)"
| "check_dim (NamedDim nm broadcastable) obj_size memo =
     (if broadcastable \<and> obj_size = 1 then Inr (True, memo)
      else (case memo nm of
              None \<Rightarrow> Inr (True, memo(nm \<mapsto> MInt obj_size))
            | Some cls_size \<Rightarrow>
                if cls_size \<noteq> MInt obj_size then Inr (False, memo)
                else Inr (True, memo)))"

fun check_dims_loop :: "(dim \<times> int) list \<Rightarrow> memo \<Rightarrow> error + (bool \<times> memo)" where
  "check_dims_loop [] memo = Inr (True, memo)"
| "check_dims_loop ((cls_dim, obj_size) # rest) memo =
     (case check_dim cls_dim obj_size memo of
        Inl e \<Rightarrow> Inl e
      | Inr (ok, memo') \<Rightarrow>
          if ok then check_dims_loop rest memo' else Inr (False, memo'))"

definition check_dims :: "dim list \<Rightarrow> int list \<Rightarrow> memo \<Rightarrow> error + (bool \<times> memo)" where
  "check_dims cls_dims obj_shape memo =
     (if length cls_dims \<noteq> length obj_shape then Inl AssertionError
      else check_dims_loop (zip cls_dims obj_shape) memo)"

section \<open>\<open>_MetaAbstractArray\<close>\<close>

text \<open>
  The loop of \<open>_check_shape\<close> that reconciles a stored broadcastable variadic shape
  with a new one; \<open>None\<close> is its \<open>return False\<close>.
\<close>

fun broadcast_loop :: "(int \<times> int) list \<Rightarrow> int list \<Rightarrow> int list option" where
  "broadcast_loop [] new_variadic_shape = Some new_variadic_shape"
| "broadcast_loop ((old_size, new_size) # rest) new_variadic_shape =
     (if old_size = 1 then broadcast_loop rest (new_variadic_shape @ [new_size])
      else if new_size \<noteq> 1 \<and> old_size \<noteq> new_size then None
      else broadcast_loop rest (new_variadic_shape @ [old_size]))"

text \<open>
  The block of \<open>_check_shape\<close> after the prefix and suffix checks, for a stored value
  already looked up. \<open>len\<close> of an \<open>int\<close> raises \<open>TypeError\<close>; a tuple never equals an
  \<open>int\<close>.
\<close>

definition check_stored ::
  "string \<Rightarrow> bool \<Rightarrow> memo_val \<Rightarrow> int list \<Rightarrow> memo \<Rightarrow> error + (bool \<times> memo)" where
  "check_stored variadic_name broadcastable variadic_shape obj_shape memo =
     (if broadcastable then
        (case variadic_shape of
           MInt n \<Rightarrow> Inl TypeError
         | MTuple old_shape \<Rightarrow>
             if length old_shape \<noteq> length obj_shape then Inr (False, memo)
             else (case broadcast_loop (zip old_shape obj_shape) [] of
                     None \<Rightarrow> Inr (False, memo)
                   | Some new_variadic_shape \<Rightarrow>
                       Inr (True, memo(variadic_name \<mapsto> MTuple new_variadic_shape))))
      else Inr (variadic_shape = MTuple obj_shape, memo))"

definition check_named_variadic ::
  "string \<Rightarrow> bool \<Rightarrow> int list \<Rightarrow> memo \<Rightarrow> error + (bool \<times> memo)" where
  "check_named_variadic variadic_name broadcastable obj_shape memo =
     (case memo variadic_name of
        None \<Rightarrow> Inr (True, memo(variadic_name \<mapsto> MTuple obj_shape))
      | Some variadic_shape \<Rightarrow>
          check_stored variadic_name broadcastable variadic_shape obj_shape memo)"

text \<open>
  The variadic token is whatever sits at \<open>cls.dims[i]\<close>: anything but the sentinel is
  asked for \<open>name\<close> and \<open>broadcastable\<close>, which a \<open>_FixedDim\<close> and the sentinel
  \<open>_anonymous_dim\<close> do not have.
\<close>

fun check_variadic :: "dim \<Rightarrow> int list \<Rightarrow> memo \<Rightarrow> error + (bool \<times> memo)" where
  "check_variadic anonymous_variadic_dim obj_shape memo = Inr (True, memo)"
| "check_variadic (NamedVariadicDim nm broadcastable) obj_shape memo =
     check_named_variadic nm broadcastable obj_shape memo"
| "check_variadic (NamedDim nm broadcastable) obj_shape memo =
     check_named_variadic nm broadcastable obj_shape memo"
| "check_variadic (FixedDim size' broadcastable) obj_shape memo = Inl AttributeError"
| "check_variadic anonymous_dim obj_shape memo = Inl AttributeError"

definition check_shape :: "array_cls \<Rightarrow> int list \<Rightarrow> memo \<Rightarrow> error + (bool \<times> memo)" where
  "check_shape cls shape memo =
     (case index_variadic cls of
        None \<Rightarrow>
          if length shape \<noteq> length (dims cls) then Inr (False, memo)
          else check_dims (dims cls) shape memo
      | Some i \<Rightarrow>
          if int (length shape) < int (length (dims cls)) - 1 then Inr (False, memo)
          else
            (let j0 = - (int (length (dims cls)) - i - 1);
                 j = (if j0 = 0 then None else Some j0)
             in case check_dims (py_slice (dims cls) None (Some i))
                                (py_slice shape None (Some i)) memo of
                  Inl e \<Rightarrow> Inl e
                | Inr (ok1, memo1) \<Rightarrow>
                    if \<not> ok1 then Inr (False, memo1)
                    else
                      (case (case j of
                               None \<Rightarrow> Inr (True, memo1)
                             | Some j' \<Rightarrow>
                                 check_dims (py_slice (dims cls) (Some j') None)
                                            (py_slice shape (Some j') None) memo1) of
                         Inl e \<Rightarrow> Inl e
                       | Inr (ok2, memo2) \<Rightarrow>
                           if \<not> ok2 then Inr (False, memo2)
                           else
                             (case py_index (dims cls) i of
                                Inl e \<Rightarrow> Inl e
                              | Inr variadic_dim \<Rightarrow>
                                  check_variadic variadic_dim (py_slice shape (Some i) j) memo2))))"

text \<open>
  \<open>__instancecheck__\<close> with \<open>storage.memo_stack\<close> passed in and returned; the top of
  the stack is its last element. The shape check works on a copy of the top memo
  (or on a fresh one when the stack is empty), written back only on success.
\<close>

definition dtype_ok :: "dtypes \<Rightarrow> dtype \<Rightarrow> bool" where
  "dtype_ok ds dt = (case ds of any_dtype \<Rightarrow> True | Dtypes l \<Rightarrow> dt \<in> set l)"

definition instancecheck ::
  "array_cls \<Rightarrow> obj \<Rightarrow> memo list \<Rightarrow> (error + bool) \<times> memo list" where
  "instancecheck cls ob memo_stack =
     (case ob of
        NdArray shape dt \<Rightarrow>
          if \<not> dtype_ok (dtypes cls) dt then (Inr False, memo_stack)
          else
            (let temp_memo = (memo_stack = []);
                 memo = (if temp_memo then Map.empty else last memo_stack)
             in case check_shape cls shape memo of
                  Inl e \<Rightarrow> (Inl e, memo_stack)
                | Inr (ok, memo') \<Rightarrow>
                    if ok then
                      (Inr True,
                       if temp_memo then memo_stack else butlast memo_stack @ [memo'])
                    else (Inr False, memo_stack))
      | _ \<Rightarrow> (Inr False, memo_stack))"

section \<open>\<open>_MetaAbstractDtype\<close>\<close>

text \<open>
  \<open>__instancecheck__\<close> of a dtype class always raises, with a message built from the
  class name.
\<close>

definition dtype_instancecheck_message :: "string \<Rightarrow> string" where
  "dtype_instancecheck_message nm =
     ''Do not use `isinstance(x, jaxtyping.'' @ nm @
     ''`. If you want to check just the dtype of an array, then use `jaxtyping.'' @ nm @
     ''['' @ [CHR 0x22] @ ''...'' @ [CHR 0x22] @ '']`.''"

definition dtype_instancecheck :: "dtype_cls \<Rightarrow> obj \<Rightarrow> error + bool" where
  "dtype_instancecheck cls ob = Inl (RuntimeError (dtype_instancecheck_message (cls_name cls)))"

subsection \<open>The string operations of the parser\<close>

text \<open>
  \<open>str.split()\<close> with no argument: the words between runs of whitespace. The ASCII
  characters that \<open>str.isspace\<close> accepts are 9 to 13, 28 to 32.
\<close>

definition is_space :: "char \<Rightarrow> bool" where
  "is_space c = (of_char c \<in> {9, 10, 11, 12, 13, 28, 29, 30, 31, 32 :: nat})"

fun split_from :: "string \<Rightarrow> string \<Rightarrow> string list" where
  "split_from cur [] = (if cur = [] then [] else [cur])"
| "split_from cur (c # cs) =
     (if is_space c then (if cur = [] then split_from [] cs else cur # split_from [] cs)
      else split_from (cur @ [c]) cs)"

definition split :: "string \<Rightarrow> string list" where
  "split s = split_from [] s"

definition endswith_hash :: "string \<Rightarrow> bool" where
  "endswith_hash s = (case rev s of [] \<Rightarrow> False | c # cs \<Rightarrow> c = CHR ''#'')"

text \<open>
  \<open>int(elem)\<close> on a string without whitespace, base ten: an optional sign, then
  digits, with single underscores allowed between digits. \<open>None\<close> is its
  \<open>ValueError\<close>, which the parser catches. The interpreter also raises \<open>ValueError\<close>
  when the string has more digits than \<open>sys.get_int_max_str_digits()\<close>, which is 4300
  unless the program changes it.
\<close>

definition is_digit :: "char \<Rightarrow> bool" where
  "is_digit c = (48 \<le> (of_char c :: nat) \<and> (of_char c :: nat) \<le> 57)"

definition digit_val :: "char \<Rightarrow> int" where
  "digit_val c = int (of_char c) - 48"

definition int_max_str_digits :: nat where
  "int_max_str_digits = 4300"

fun py_digits :: "bool \<Rightarrow> int \<Rightarrow> string \<Rightarrow> int option" where
  "py_digits after_digit acc [] = (if after_digit then Some acc else None)"
| "py_digits after_digit acc (c # cs) =
     (if is_digit c then py_digits True (acc * 10 + digit_val c) cs
      else if c = CHR ''_'' \<and> after_digit then py_digits False acc cs
      else None)"

definition py_int :: "string \<Rightarrow> int option" where
  "py_int s =
     (if int_max_str_digits < length (filter is_digit s) then None
      else
        (case s of
           [] \<Rightarrow> None
         | c # cs \<Rightarrow>
             if c = CHR ''-'' then map_option uminus (py_digits False 0 cs)
             else if c = CHR ''+'' then py_digits False 0 cs
             else py_digits False 0 s))"

subsection \<open>\<open>__getitem__\<close>\<close>

text \<open>
  One iteration of the loop over \<open>enumerate(dim_str.split())\<close>: the token appended
  to \<open>dims\<close> and the new \<open>index_variadic\<close>, or the error raised. \<open>elem[0]\<close> of an
  empty string raises \<open>IndexError\<close>.
\<close>

definition parse_elem :: "int \<Rightarrow> string \<Rightarrow> int option \<Rightarrow> error + (dim \<times> int option)" where
  "parse_elem index elem0 index_variadic' =
     (if CHR '','' \<in> set elem0 then Inl (ValueError Commas_not_spaces)
      else
        (let broadcastable = endswith_hash elem0;
             elem = (if broadcastable then butlast elem0 else elem0)
         in case py_int elem of
              Some n \<Rightarrow> Inr (FixedDim n broadcastable, index_variadic')
            | None \<Rightarrow>
                if elem = ''_'' then Inr (anonymous_dim, index_variadic')
                else if elem = ''...'' then
                  (if index_variadic' \<noteq> None then Inl (ValueError Multiple_variadic)
                   else Inr (anonymous_variadic_dim, Some index))
                else
                  (case elem of
                     [] \<Rightarrow> Inl IndexError
                   | c # cs \<Rightarrow>
                       if c = CHR ''*'' then
                         (if index_variadic' \<noteq> None then Inl (ValueError Multiple_variadic)
                          else Inr (NamedVariadicDim cs broadcastable, Some index))
                       else Inr (NamedDim elem broadcastable, index_variadic'))))"

fun parse_loop ::
  "int \<Rightarrow> string list \<Rightarrow> dim list \<Rightarrow> int option \<Rightarrow> error + (dim list \<times> int option)" where
  "parse_loop index [] dims' index_variadic' = Inr (dims', index_variadic')"
| "parse_loop index (elem # rest) dims' index_variadic' =
     (case parse_elem index elem index_variadic' of
        Inl e \<Rightarrow> Inl e
      | Inr (d, iv) \<Rightarrow> parse_loop (index + 1) rest (dims' @ [d]) iv)"

text \<open>
  The body of \<open>__getitem__\<close>, reading the global \<open>_array_name_format\<close>, which is its
  first argument here.
\<close>

definition getitem :: "string \<Rightarrow> dtype_cls \<Rightarrow> obj \<Rightarrow> error + array_cls" where
  "getitem array_name_format' cls dim_str =
     (case dim_str of
        PyStr s \<Rightarrow>
          (case parse_loop 0 (split s) [] None of
             Inl e \<Rightarrow> Inl e
           | Inr (dims', index_variadic') \<Rightarrow>
               if array_name_format' = ''dtype_and_shape'' then
                 Inr \<lparr>name = cls_name cls @ ''['' @ [CHR 0x27] @ s @ [CHR 0x27] @ '']'',
                      dtypes = cls_dtypes cls, dims = dims',
                      index_variadic = index_variadic'\<rparr>
               else if array_name_format' = ''array'' then
                 Inr \<lparr>name = ''Array'', dtypes = cls_dtypes cls, dims = dims',
                      index_variadic = index_variadic'\<rparr>
               else Inl (ValueError (Name_format_not_recognised array_name_format')))
      | _ \<Rightarrow> Inl (ValueError Must_be_a_string))"

subsection \<open>The cache around \<open>__getitem__\<close> and the global name format\<close>

text \<open>
  \<open>functools.lru_cache(maxsize=None)\<close> keys the results by the arguments, which it
  hashes first (a list or an array is unhashable: \<open>TypeError\<close>); it keeps returned
  values only, never exceptions. The module state is the cache and
  \<open>_array_name_format\<close>.
\<close>

record module_state =
  cache :: "(dtype_cls \<times> obj) \<rightharpoonup> array_cls"
  array_name_format :: string

fun hashable :: "obj \<Rightarrow> bool" where
  "hashable (NdArray shape dt) = False"
| "hashable (PyList xs) = False"
| "hashable other = True"

definition initial_state :: module_state where
  "initial_state = \<lparr>cache = Map.empty, array_name_format = ''dtype_and_shape''\<rparr>"

definition set_array_name_format :: "string \<Rightarrow> module_state \<Rightarrow> module_state" where
  "set_array_name_format v st = st\<lparr>array_name_format := v\<rparr>"

definition getitem_cached ::
  "module_state \<Rightarrow> dtype_cls \<Rightarrow> obj \<Rightarrow> (error + array_cls) \<times> module_state" where
  "getitem_cached st cls dim_str =
     (if \<not> hashable dim_str then (Inl TypeError, st)
      else
        (case cache st (cls, dim_str) of
           Some r \<Rightarrow> (Inr r, st)
         | None \<Rightarrow>
             (case getitem (array_name_format st) cls dim_str of
                Inl e \<Rightarrow> (Inl e, st)
              | Inr r \<Rightarrow> (Inr r, st\<lparr>cache := (cache st)((cls, dim_str) \<mapsto> r)\<rparr>))))"

text \<open>The module states a program can reach: by parsing and by setting the name format.\<close>

inductive reachable :: "module_state \<Rightarrow> bool" where
  reach_init: "reachable initial_state"
| reach_set: "reachable st \<Longrightarrow> reachable (set_array_name_format v st)"
| reach_getitem: "reachable st \<Longrightarrow> reachable (snd (getitem_cached st cls dim_str))"

subsection \<open>The dtype classes used below\<close>

text \<open>\<open>f32 = _make_dtype(_float32, "f32")\<close> and \<open>Array = _make_dtype(_any_dtype, "Array")\<close>.\<close>

definition f32 :: dtype_cls where
  "f32 = \<lparr>cls_name = ''f32'', cls_dtypes = Dtypes [''float32'']\<rparr>"

definition Array :: dtype_cls where
  "Array = \<lparr>cls_name = ''Array'', cls_dtypes = any_dtype\<rparr>"

section \<open>The specification's reading of the matcher\<close>

text \<open>
  The reconciliation of one stored size with one new size, in the words of the
  specification: \<open>new\<close> when \<open>old = 1\<close>, failure when \<open>new \<noteq> 1\<close> and \<open>new \<noteq> old\<close>,
  \<open>old\<close> otherwise; and its elementwise extension, which fails on sequences of
  different lengths.
\<close>

definition spec_reconcile :: "int \<Rightarrow> int \<Rightarrow> int option" where
  "spec_reconcile old new =
     (if old = 1 then Some new
      else if new \<noteq> 1 \<and> new \<noteq> old then None
      else Some old)"

fun spec_reconcile_all :: "int list \<Rightarrow> int list \<Rightarrow> int list option" where
  "spec_reconcile_all [] [] = Some []"
| "spec_reconcile_all (old # olds) (new # news) =
     (case spec_reconcile old new of
        None \<Rightarrow> None
      | Some r \<Rightarrow> map_option ((#) r) (spec_reconcile_all olds news))"
| "spec_reconcile_all olds news = None"

text \<open>
  The rank check and the split around the variadic token, in the words of the
  specification: with the variadic token at index \<open>i\<close> of \<open>k\<close> tokens and a shape of
  rank \<open>n\<close>, the prefix tokens meet the first \<open>i\<close> axes, the suffix tokens meet the
  last \<open>k - i - 1\<close> axes, and the \<open>n - (k - 1)\<close> axes between go to the variadic token.
\<close>

definition spec_check_shape ::
  "dim list \<Rightarrow> nat option \<Rightarrow> int list \<Rightarrow> memo \<Rightarrow> error + (bool \<times> memo)" where
  "spec_check_shape ds iv shape memo =
     (case iv of
        None \<Rightarrow>
          if length shape \<noteq> length ds then Inr (False, memo)
          else check_dims_loop (zip ds shape) memo
      | Some i \<Rightarrow>
          (let k = length ds; n = length shape
           in if n < k - 1 then Inr (False, memo)
              else
                (case check_dims_loop (zip (take i ds) (take i shape)) memo of
                   Inl e \<Rightarrow> Inl e
                 | Inr (ok1, memo1) \<Rightarrow>
                     if \<not> ok1 then Inr (False, memo1)
                     else
                       (case check_dims_loop
                               (zip (drop (i + 1) ds) (drop (n - (k - i - 1)) shape)) memo1 of
                          Inl e \<Rightarrow> Inl e
                        | Inr (ok2, memo2) \<Rightarrow>
                            if \<not> ok2 then Inr (False, memo2)
                            else check_variadic (ds ! i)
                                   (take (n - (k - 1)) (drop i shape)) memo2))))"

section \<open>Evaluation and slicing lemmas\<close>

lemmas parse_simps = getitem_def split_def is_space_def parse_elem_def endswith_hash_def
  py_int_def is_digit_def digit_val_def int_max_str_digits_def

lemmas check_simps = instancecheck_def dtype_ok_def check_shape_def check_dims_def
  py_slice_def slice_bound_def py_index_def check_named_variadic_def check_stored_def
  Let_def

lemma py_slice_upto: "py_slice xs None (Some (int i)) = take i xs"
  by (simp add: py_slice_def slice_bound_def min_def)

lemma py_slice_from: "py_slice xs (Some (int i)) None = drop i xs"
  by (simp add: py_slice_def slice_bound_def min_def)

lemma py_slice_from_end:
  "0 < m \<Longrightarrow> m \<le> length xs \<Longrightarrow> py_slice xs (Some (- int m)) None = drop (length xs - m) xs"
  by (simp add: py_slice_def slice_bound_def max_def nat_diff_distrib')

lemma py_slice_between:
  "0 < m \<Longrightarrow> i + m \<le> length xs \<Longrightarrow>
   py_slice xs (Some (int i)) (Some (- int m)) = take (length xs - m - i) (drop i xs)"
  by (simp add: py_slice_def slice_bound_def max_def min_def nat_diff_distrib')

lemma py_index_nat: "i < length xs \<Longrightarrow> py_index xs (int i) = Inr (xs ! i)"
  by (simp add: py_index_def)

lemma check_dims_same_length:
  "length ds = length shape \<Longrightarrow> check_dims ds shape memo = check_dims_loop (zip ds shape) memo"
  by (simp add: check_dims_def)

lemma getitem_3_hash:
  "getitem ''dtype_and_shape'' f32 (PyStr ''3#'') =
     Inr \<lparr>name = ''f32['' @ [CHR 0x27] @ ''3#'' @ [CHR 0x27] @ '']'',
          dtypes = Dtypes [''float32''], dims = [FixedDim 3 True], index_variadic = None\<rparr>"
  by (simp add: parse_simps f32_def)

lemma getitem_n_n:
  "getitem ''dtype_and_shape'' f32 (PyStr ''n n'') =
     Inr \<lparr>name = ''f32['' @ [CHR 0x27] @ ''n n'' @ [CHR 0x27] @ '']'',
          dtypes = Dtypes [''float32''],
          dims = [NamedDim ''n'' False, NamedDim ''n'' False], index_variadic = None\<rparr>"
  by (simp add: parse_simps f32_def)

lemma getitem_a_b:
  "getitem ''dtype_and_shape'' f32 (PyStr ''a b'') =
     Inr \<lparr>name = ''f32['' @ [CHR 0x27] @ ''a b'' @ [CHR 0x27] @ '']'',
          dtypes = Dtypes [''float32''],
          dims = [NamedDim ''a'' False, NamedDim ''b'' False], index_variadic = None\<rparr>"
  by (simp add: parse_simps f32_def)

lemma getitem_dots:
  "getitem ''dtype_and_shape'' Array (PyStr ''...'') =
     Inr \<lparr>name = ''Array['' @ [CHR 0x27] @ ''...'' @ [CHR 0x27] @ '']'',
          dtypes = any_dtype, dims = [anonymous_variadic_dim], index_variadic = Some 0\<rparr>"
  by (simp add: parse_simps Array_def)

lemma getitem_batch_hash:
  "getitem ''dtype_and_shape'' f32 (PyStr ''*batch#'') =
     Inr \<lparr>name = ''f32['' @ [CHR 0x27] @ ''*batch#'' @ [CHR 0x27] @ '']'',
          dtypes = Dtypes [''float32''],
          dims = [NamedVariadicDim ''batch'' True], index_variadic = Some 0\<rparr>"
  by (simp add: parse_simps f32_def)

lemma getitem_a_batch_b:
  "getitem ''dtype_and_shape'' f32 (PyStr ''a *batch b'') =
     Inr \<lparr>name = ''f32['' @ [CHR 0x27] @ ''a *batch b'' @ [CHR 0x27] @ '']'',
          dtypes = Dtypes [''float32''],
          dims = [NamedDim ''a'' False, NamedVariadicDim ''batch'' False, NamedDim ''b'' False],
          index_variadic = Some 1\<rparr>"
  by (simp add: parse_simps f32_def)

section \<open>The memo and failed matches\<close>

text \<open>
  The shape check itself mutates the memo it is given before it fails: with \<open>b\<close>
  bound to 5, the declaration \<open>a b\<close> against shape \<open>(3, 4)\<close> binds \<open>a\<close> and then fails
  on \<open>b\<close>. This is why \<open>__instancecheck__\<close> hands it a copy.
\<close>

lemma check_shape_mutates_before_failing:
  "check_shape \<lparr>name = nm, dtypes = ds,
       dims = [NamedDim ''a'' False, NamedDim ''b'' False], index_variadic = None\<rparr>
     [3, 4] [''b'' \<mapsto> MInt 5] = Inr (False, [''b'' \<mapsto> MInt 5, ''a'' \<mapsto> MInt 3])"
  by (simp add: check_shape_def check_dims_def)

text \<open>
  Claim C1. For every declaration, object (shape and dtype) and memo stack, when
  \<open>__instancecheck__\<close> returns \<open>False\<close> the memo stack after the check is the memo
  stack before it.
\<close>

theorem failed_match_keeps_memo:
  "fst (instancecheck cls ob memo_stack) = Inr False \<Longrightarrow>
   snd (instancecheck cls ob memo_stack) = memo_stack"
  by (auto simp: instancecheck_def Let_def split: obj.splits sum.splits prod.splits if_splits)

theorem failed_match_keeps_memo_witness:
  "\<exists>D. getitem ''dtype_and_shape'' f32 (PyStr ''a b'') = Inr D
     \<and> fst (instancecheck D (NdArray [3, 4] ''float32'') [[''b'' \<mapsto> MInt 5]]) = Inr False
     \<and> snd (instancecheck D (NdArray [3, 4] ''float32'') [[''b'' \<mapsto> MInt 5]])
         = [[''b'' \<mapsto> MInt 5]]"
proof -
  let ?D = "\<lparr>name = ''f32['' @ [CHR 0x27] @ ''a b'' @ [CHR 0x27] @ '']'',
          dtypes = Dtypes [''float32''],
          dims = [NamedDim ''a'' False, NamedDim ''b'' False], index_variadic = None\<rparr>"
  have h: "fst (instancecheck ?D (NdArray [3, 4] ''float32'') [[''b'' \<mapsto> MInt 5]]) = Inr False"
    by (simp add: check_simps)
  from failed_match_keeps_memo [OF h] h show ?thesis
    by (simp add: getitem_a_b)
qed

text \<open>
  Claim C10. For every object that is not an array, \<open>__instancecheck__\<close> of any
  declaration returns \<open>False\<close> without raising and leaves the memo stack as it was,
  whatever the declaration's dtypes and dims and whatever the memo stack holds.
\<close>

theorem non_array_returns_False:
  "\<not> is_ndarray ob \<Longrightarrow> instancecheck cls ob memo_stack = (Inr False, memo_stack)"
  by (cases ob) (simp_all add: instancecheck_def)

theorem non_array_returns_False_witness:
  "\<exists>D. getitem ''dtype_and_shape'' Array (PyStr ''...'') = Inr D
     \<and> \<not> is_ndarray (PyList [PyInt 3])
     \<and> instancecheck D (PyList [PyInt 3]) [[''n'' \<mapsto> MInt 3]]
         = (Inr False, [[''n'' \<mapsto> MInt 3]])"
proof -
  have h: "\<not> is_ndarray (PyList [PyInt 3])" by simp
  from non_array_returns_False [OF h] h show ?thesis
    by (simp add: getitem_dots)
qed

section \<open>Single axes\<close>

text \<open>
  Claim C5. A \<open>_FixedDim\<close> of size \<open>n\<close> against an axis of size \<open>size\<close> succeeds exactly
  when \<open>size = n\<close>, or the token is broadcastable and \<open>size = 1\<close>, and never writes
  the memo; the declaration \<open>3#\<close> accepts the shapes \<open>(3,)\<close> and \<open>(1,)\<close> and rejects
  \<open>(2,)\<close>, under every memo stack.
\<close>

theorem fixed_dim_semantics:
  "check_dims [FixedDim n bcast] [size'] memo = Inr (size' = n \<or> (bcast \<and> size' = 1), memo)
   \<and> (\<exists>D. getitem ''dtype_and_shape'' f32 (PyStr ''3#'') = Inr D
        \<and> fst (instancecheck D (NdArray [3] ''float32'') ms) = Inr True
        \<and> fst (instancecheck D (NdArray [1] ''float32'') ms) = Inr True
        \<and> fst (instancecheck D (NdArray [2] ''float32'') ms) = Inr False)"
proof
  show "check_dims [FixedDim n bcast] [size'] memo = Inr (size' = n \<or> (bcast \<and> size' = 1), memo)"
    by (auto simp: check_dims_def)
  show "\<exists>D. getitem ''dtype_and_shape'' f32 (PyStr ''3#'') = Inr D
        \<and> fst (instancecheck D (NdArray [3] ''float32'') ms) = Inr True
        \<and> fst (instancecheck D (NdArray [1] ''float32'') ms) = Inr True
        \<and> fst (instancecheck D (NdArray [2] ''float32'') ms) = Inr False"
    by (simp add: getitem_3_hash check_simps)
qed

text \<open>
  Claim C4. A \<open>_NamedDim\<close> against an axis of size \<open>size\<close>: when it is broadcastable
  and \<open>size = 1\<close> the check succeeds and the memo is not written; otherwise an absent
  name is bound to \<open>size\<close> and the check succeeds; otherwise the check succeeds exactly
  when the bound value is \<open>size\<close>. The declaration \<open>n n\<close> accepts the shape \<open>(3, 3)\<close>
  (outside any scope, and in a scope whose memo is empty, where it binds \<open>n\<close> to 3)
  and rejects the shape \<open>(3, 4)\<close> under every memo stack.
\<close>

theorem named_dim_semantics:
  "check_dims [NamedDim nm bcast] [size'] memo =
     (if bcast \<and> size' = 1 then Inr (True, memo)
      else case memo nm of
             None \<Rightarrow> Inr (True, memo(nm \<mapsto> MInt size'))
           | Some v \<Rightarrow> Inr (v = MInt size', memo))
   \<and> (\<exists>D. getitem ''dtype_and_shape'' f32 (PyStr ''n n'') = Inr D
        \<and> instancecheck D (NdArray [3, 3] ''float32'') [] = (Inr True, [])
        \<and> instancecheck D (NdArray [3, 3] ''float32'') [Map.empty]
            = (Inr True, [[''n'' \<mapsto> MInt 3]])
        \<and> fst (instancecheck D (NdArray [3, 4] ''float32'') ms) = Inr False)"
proof
  show "check_dims [NamedDim nm bcast] [size'] memo =
     (if bcast \<and> size' = 1 then Inr (True, memo)
      else case memo nm of
             None \<Rightarrow> Inr (True, memo(nm \<mapsto> MInt size'))
           | Some v \<Rightarrow> Inr (v = MInt size', memo))"
    by (auto simp: check_dims_def split: option.splits)
  show "\<exists>D. getitem ''dtype_and_shape'' f32 (PyStr ''n n'') = Inr D
        \<and> instancecheck D (NdArray [3, 3] ''float32'') [] = (Inr True, [])
        \<and> instancecheck D (NdArray [3, 3] ''float32'') [Map.empty]
            = (Inr True, [[''n'' \<mapsto> MInt 3]])
        \<and> fst (instancecheck D (NdArray [3, 4] ''float32'') ms) = Inr False"
    by (cases "ms = []"; cases "last ms ''n''") (simp_all add: getitem_n_n check_simps)
qed

section \<open>Membership in a dtype class\<close>

text \<open>
  Claim C9. For every object and every dtype class, \<open>isinstance\<close> against the dtype
  class itself never returns a boolean: it raises \<open>RuntimeError\<close>, and the message
  ends by naming the subscripted form \<open>jaxtyping.<name>["..."]\<close> to use instead.
\<close>

theorem dtype_instancecheck_raises:
  "(\<forall>b. dtype_instancecheck cls ob \<noteq> Inr b) \<and>
   (\<exists>pre. dtype_instancecheck cls ob =
      Inl (RuntimeError (pre @ ''use `jaxtyping.'' @ cls_name cls @
                           ''['' @ [CHR 0x22] @ ''...'' @ [CHR 0x22] @ '']`.'')))"
  by (simp add: dtype_instancecheck_def dtype_instancecheck_message_def)

section \<open>The variadic token\<close>

lemma broadcast_loop_acc:
  "length olds = length news \<Longrightarrow>
   broadcast_loop (zip olds news) acc = map_option ((@) acc) (spec_reconcile_all olds news)"
proof (induction olds news arbitrary: acc rule: list_induct2)
  case Nil
  then show ?case by simp
next
  case (Cons old olds new news)
  then show ?case
    by (cases "spec_reconcile_all olds news")
       (auto simp: spec_reconcile_def option.map_comp comp_def)
qed

lemma spec_reconcile_all_length:
  "length olds \<noteq> length news \<Longrightarrow> spec_reconcile_all olds news = None"
  by (induction olds news rule: spec_reconcile_all.induct) (auto split: option.splits)

text \<open>
  With the name bound to a stored tuple, the block for a broadcastable
  \<open>_NamedVariadicDim\<close> is the elementwise reconciliation of the specification: it
  fails when the two sub-shapes differ in length or some pair has \<open>old \<noteq> 1\<close>,
  \<open>new \<noteq> 1\<close> and \<open>new \<noteq> old\<close>, and otherwise writes back the sequence that has
  \<open>new\<close> where \<open>old = 1\<close> and \<open>old\<close> elsewhere. A failed group check leaves the memo as
  it was.
\<close>

lemma stored_tuple_reconciles:
  "memo nm = Some (MTuple old_shape) \<Longrightarrow>
   check_variadic (NamedVariadicDim nm True) sub_shape memo =
     (case spec_reconcile_all old_shape sub_shape of
        None \<Rightarrow> Inr (False, memo)
      | Some reconciled \<Rightarrow> Inr (True, memo(nm \<mapsto> MTuple reconciled)))"
  by (cases "length old_shape = length sub_shape")
     (auto simp: check_named_variadic_def check_stored_def broadcast_loop_acc
        spec_reconcile_all_length split: option.splits)


text \<open>
  The scenario of the specification: \<open>batch\<close> bound to \<open>(1, 4)\<close>, then the sub-shape
  \<open>(5, 4)\<close> widens it to \<open>(5, 4)\<close>; against \<open>(5, 4)\<close> the sub-shape \<open>(1, 9)\<close> fails.
\<close>

lemma stored_tuple_reconciles_example:
  "[''batch'' \<mapsto> MTuple [1, 4]] ''batch'' = Some (MTuple [1, 4])
   \<and> check_variadic (NamedVariadicDim ''batch'' True) [5, 4] [''batch'' \<mapsto> MTuple [1, 4]]
       = Inr (True, [''batch'' \<mapsto> MTuple [5, 4]])
   \<and> [''batch'' \<mapsto> MTuple [5, 4]] ''batch'' = Some (MTuple [5, 4])
   \<and> check_variadic (NamedVariadicDim ''batch'' True) [1, 9] [''batch'' \<mapsto> MTuple [5, 4]]
       = Inr (False, [''batch'' \<mapsto> MTuple [5, 4]])"
proof -
  have h1: "[''batch'' \<mapsto> MTuple [1, 4]] ''batch'' = Some (MTuple [1, 4])" by simp
  have h2: "[''batch'' \<mapsto> MTuple [5, 4]] ''batch'' = Some (MTuple [5, 4])" by simp
  show ?thesis
    using stored_tuple_reconciles
            [of "[''batch'' \<mapsto> MTuple [1, 4]]" "''batch''" "[1, 4]" "[5, 4]"]
          stored_tuple_reconciles
            [of "[''batch'' \<mapsto> MTuple [5, 4]]" "''batch''" "[5, 4]" "[1, 9]"]
          h1 h2
    by (simp add: spec_reconcile_def)
qed

text \<open>
  The same three checks through \<open>__instancecheck__\<close> of the parsed declaration
  \<open>*batch#\<close>, in one scope.
\<close>

lemma broadcast_scenario:
  "\<exists>D. getitem ''dtype_and_shape'' f32 (PyStr ''*batch#'') = Inr D
     \<and> instancecheck D (NdArray [1, 4] ''float32'') [Map.empty]
         = (Inr True, [[''batch'' \<mapsto> MTuple [1, 4]]])
     \<and> instancecheck D (NdArray [5, 4] ''float32'') [[''batch'' \<mapsto> MTuple [1, 4]]]
         = (Inr True, [[''batch'' \<mapsto> MTuple [5, 4]]])
     \<and> instancecheck D (NdArray [1, 9] ''float32'') [[''batch'' \<mapsto> MTuple [5, 4]]]
         = (Inr False, [[''batch'' \<mapsto> MTuple [5, 4]]])"
  by (simp add: getitem_batch_hash check_simps)

lemma getitem_b_bhash:
  "getitem ''dtype_and_shape'' f32 (PyStr ''b *b#'') =
     Inr \<lparr>name = ''f32['' @ [CHR 0x27] @ ''b *b#'' @ [CHR 0x27] @ '']'',
          dtypes = Dtypes [''float32''],
          dims = [NamedDim ''b'' False, NamedVariadicDim ''b'' True],
          index_variadic = Some 1\<rparr>"
  by (simp add: parse_simps f32_def)

lemma getitem_b_b:
  "getitem ''dtype_and_shape'' f32 (PyStr ''b *b'') =
     Inr \<lparr>name = ''f32['' @ [CHR 0x27] @ ''b *b'' @ [CHR 0x27] @ '']'',
          dtypes = Dtypes [''float32''],
          dims = [NamedDim ''b'' False, NamedVariadicDim ''b'' False],
          index_variadic = Some 1\<rparr>"
  by (simp add: parse_simps f32_def)

text \<open>
  Claim C2. For a broadcastable \<open>_NamedVariadicDim\<close> whose name is already bound in
  the memo, the group check either fails or reconciles. The memo also holds the
  integers bound by \<open>_NamedDim\<close> tokens, under the same names: the declaration
  \<open>b *b#\<close> against the shape \<open>(2, 3)\<close> binds \<open>b\<close> to 2 and then asks for the length of
  that integer, which raises \<open>TypeError\<close>, outside any scope and in a fresh scope
  alike. The branch for a token that is not broadcastable, \<open>b *b\<close>, compares the
  integer with the sub-shape and returns \<open>False\<close> on the same input.
\<close>

theorem broadcastable_variadic_on_int_binding:
  "(\<exists>D. getitem ''dtype_and_shape'' f32 (PyStr ''b *b#'') = Inr D
      \<and> instancecheck D (NdArray [2, 3] ''float32'') [] = (Inl TypeError, [])
      \<and> instancecheck D (NdArray [2, 3] ''float32'') [Map.empty] = (Inl TypeError, [Map.empty]))
   \<and> (\<exists>D. getitem ''dtype_and_shape'' f32 (PyStr ''b *b'') = Inr D
      \<and> instancecheck D (NdArray [2, 3] ''float32'') [] = (Inr False, [])
      \<and> instancecheck D (NdArray [2, 3] ''float32'') [Map.empty] = (Inr False, [Map.empty]))
   \<and> check_variadic (NamedVariadicDim ''b'' True) [3] [''b'' \<mapsto> MInt 2] = Inl TypeError
   \<and> check_variadic (NamedVariadicDim ''b'' False) [3] [''b'' \<mapsto> MInt 2]
       = Inr (False, [''b'' \<mapsto> MInt 2])"
  by (simp add: getitem_b_bhash getitem_b_b check_simps)

text \<open>
  Claim C3. Without a variadic token the match fails unless the rank is the number
  of tokens, and the tokens then meet the axes pairwise in order. With the variadic
  token at index \<open>i\<close> of \<open>k\<close> tokens the match fails unless the rank is at least
  \<open>k - 1\<close>; the tokens before \<open>i\<close> meet the first \<open>i\<close> axes, the tokens after \<open>i\<close> meet
  the last \<open>k - i - 1\<close> axes (none when \<open>i\<close> is the last token), and the axes between,
  possibly none, go to the variadic token as a group. No assertion of \<open>_check_dims\<close>
  fails on the way.
\<close>

theorem check_shape_splits_around_variadic:
  assumes "index_variadic cls = map_option int iv"
    and "case iv of None \<Rightarrow> True | Some i \<Rightarrow> i < length (dims cls)"
  shows "check_shape cls shape memo = spec_check_shape (dims cls) iv shape memo"
proof (cases iv)
  case None
  then show ?thesis using assms
    by (simp add: check_shape_def spec_check_shape_def check_dims_def)
next
  case (Some i)
  then have i: "i < length (dims cls)" and iv: "index_variadic cls = Some (int i)"
    using assms by simp_all
  show ?thesis
  proof (cases "length shape < length (dims cls) - 1")
    case True
    then show ?thesis using i iv Some
      by (auto simp add: check_shape_def spec_check_shape_def Let_def)
  next
    case False
    then have n: "length (dims cls) - 1 \<le> length shape" by simp
    have nlt: "\<not> int (length shape) < int (length (dims cls)) - 1"
      using n i by linarith
    have pre: "check_dims (py_slice (dims cls) None (Some (int i))) (py_slice shape None (Some (int i))) m
         = check_dims_loop (zip (take i (dims cls)) (take i shape)) m" for m
      using i n by (simp add: py_slice_upto check_dims_same_length)
    have idx: "py_index (dims cls) (int i) = Inr (dims cls ! i)"
      using i by (rule py_index_nat)
    show ?thesis
    proof (cases "i = length (dims cls) - 1")
      case True
      then have mid: "take (length shape - (length (dims cls) - 1)) (drop i shape) = drop i shape"
        by simp
      from True i have suf: "drop (i + 1) (dims cls) = []" by simp
      from True i have j0: "- (int (length (dims cls)) - int i - 1) = 0" by linarith
      show ?thesis
        unfolding check_shape_def spec_check_shape_def Let_def iv Some option.case j0
        using False mid suf
        by (simp add: nlt pre py_slice_from idx split: sum.splits prod.splits)
    next
      case ne: False
      define m where "m = length (dims cls) - i - 1"
      have m: "0 < m" "m \<le> length (dims cls)" "m \<le> length shape" "i + m \<le> length shape"
        using i n ne by (auto simp: m_def)
      have j0: "- (int (length (dims cls)) - int i - 1) = - int m"
        using i by (simp add: m_def)
      have ds: "length (dims cls) - m = i + 1" using i by (simp add: m_def)
      have suf: "check_dims (py_slice (dims cls) (Some (- int m)) None) (py_slice shape (Some (- int m)) None) mm
         = check_dims_loop (zip (drop (Suc i) (dims cls)) (drop (length shape - m) shape)) mm" for mm
      proof -
        have len: "length (drop (Suc i) (dims cls)) = length (drop (length shape - m) shape)"
          using m i by (simp add: m_def)
        show ?thesis
          using m i by (simp add: py_slice_from_end ds check_dims_same_length [OF len])
      qed
      have mid: "py_slice shape (Some (int i)) (Some (- int m)) = take (length shape - (length (dims cls) - Suc 0)) (drop i shape)"
      proof -
        have "length shape - m - i = length shape - (length (dims cls) - Suc 0)"
          using i by (simp add: m_def)
        then show ?thesis
          using py_slice_between [OF m(1) m(4)] by simp
      qed
      have j: "- int m \<noteq> 0" using m by simp
      have km: "length (dims cls) - i - 1 = m" by (simp add: m_def)
      show ?thesis
        unfolding check_shape_def spec_check_shape_def Let_def iv Some option.case j0 km
        using False j
        by (simp add: nlt pre suf mid idx split: sum.splits prod.splits)
    qed
  qed
qed

theorem check_shape_splits_around_variadic_witness:
  "\<exists>D. getitem ''dtype_and_shape'' f32 (PyStr ''a *batch b'') = Inr D
     \<and> index_variadic D = map_option int (Some 1)
     \<and> (case Some (1::nat) of None \<Rightarrow> True | Some i \<Rightarrow> i < length (dims D))
     \<and> check_shape D [2, 5, 6, 7, 3] Map.empty
         = spec_check_shape (dims D) (Some 1) [2, 5, 6, 7, 3] Map.empty
     \<and> check_shape D [2, 5, 6, 7, 3] Map.empty
         = Inr (True, [''a'' \<mapsto> MInt 2, ''b'' \<mapsto> MInt 3, ''batch'' \<mapsto> MTuple [5, 6, 7]])
     \<and> check_shape D [2, 3] Map.empty
         = Inr (True, [''a'' \<mapsto> MInt 2, ''b'' \<mapsto> MInt 3, ''batch'' \<mapsto> MTuple []])"
proof -
  let ?D = "\<lparr>name = ''f32['' @ [CHR 0x27] @ ''a *batch b'' @ [CHR 0x27] @ '']'',
          dtypes = Dtypes [''float32''],
          dims = [NamedDim ''a'' False, NamedVariadicDim ''batch'' False, NamedDim ''b'' False],
          index_variadic = Some 1\<rparr>"
  have h1: "index_variadic ?D = map_option int (Some 1)" by simp
  have h2: "case Some (1::nat) of None \<Rightarrow> True | Some i \<Rightarrow> i < length (dims ?D)" by simp
  have e1: "check_shape ?D [2, 5, 6, 7, 3] Map.empty
         = Inr (True, [''a'' \<mapsto> MInt 2, ''b'' \<mapsto> MInt 3, ''batch'' \<mapsto> MTuple [5, 6, 7]])"
    by (simp add: check_simps)
  have e2: "check_shape ?D [2, 3] Map.empty
         = Inr (True, [''a'' \<mapsto> MInt 2, ''b'' \<mapsto> MInt 3, ''batch'' \<mapsto> MTuple []])"
    by (simp add: check_simps)
  from check_shape_splits_around_variadic [OF h1 h2, of "[2, 5, 6, 7, 3]" Map.empty] h1 h2 e1 e2
  show ?thesis
    by (simp only: getitem_a_batch_b) blast
qed

section \<open>The parser\<close>

lemma py_digits_nonneg: "py_digits p acc s = Some n \<Longrightarrow> 0 \<le> acc \<Longrightarrow> 0 \<le> n"
proof (induction s arbitrary: p acc)
  case Nil
  then show ?case by (simp split: if_splits)
next
  case (Cons c cs)
  show ?case
  proof (cases "is_digit c")
    case True
    then have "0 \<le> acc * 10 + digit_val c"
      using Cons.prems(2) by (simp add: is_digit_def digit_val_def)
    with Cons True show ?thesis by simp
  next
    case False
    with Cons show ?thesis by (simp split: if_splits)
  qed
qed

lemma py_int_negative:
  assumes "py_int s = Some n" and "n < 0"
  shows "\<exists>cs. s = CHR ''-'' # cs"
proof (cases s)
  case Nil
  with assms show ?thesis by (simp add: py_int_def split: if_splits)
next
  case (Cons c cs)
  show ?thesis
  proof (rule ccontr)
    assume "\<not> ?thesis"
    with Cons have c: "c \<noteq> CHR ''-''" by simp
    with assms(1) Cons have "py_digits False 0 cs = Some n \<or> py_digits False 0 s = Some n"
      unfolding py_int_def by (simp split: if_splits)
    then have "0 \<le> n" by (auto dest: py_digits_nonneg)
    with assms(2) show False by simp
  qed
qed

lemma parse_elem_no_comma: "parse_elem index tok iv = Inr r \<Longrightarrow> CHR '','' \<notin> set tok"
  by (auto simp: parse_elem_def)

lemma parse_elem_Fixed:
  "parse_elem index tok iv = Inr (FixedDim n b, iv') \<longleftrightarrow>
     CHR '','' \<notin> set tok
     \<and> py_int (if endswith_hash tok then butlast tok else tok) = Some n
     \<and> b = endswith_hash tok \<and> iv' = iv"
  by (auto simp: parse_elem_def Let_def split: option.splits list.splits if_splits)

lemma parse_loop_dims:
  "parse_loop index toks ds iv = Inr (ds', iv') \<Longrightarrow>
   \<exists>new. ds' = ds @ new \<and> length new = length toks
     \<and> (\<forall>k<length toks. \<exists>iv1 iv2.
           parse_elem (index + int k) (toks ! k) iv1 = Inr (new ! k, iv2))"
proof (induction toks arbitrary: index ds iv)
  case Nil
  then show ?case by simp
next
  case (Cons tok toks)
  from Cons.prems obtain d iv1 where
    pe: "parse_elem index tok iv = Inr (d, iv1)"
    and rest: "parse_loop (index + 1) toks (ds @ [d]) iv1 = Inr (ds', iv')"
    by (auto split: sum.splits)
  from Cons.IH [OF rest] obtain new where
    new: "ds' = (ds @ [d]) @ new" "length new = length toks"
      "\<forall>k<length toks. \<exists>iv1 iv2.
           parse_elem (index + 1 + int k) (toks ! k) iv1 = Inr (new ! k, iv2)"
    by blast
  have "\<exists>iv1 iv2. parse_elem (index + int k) ((tok # toks) ! k) iv1 = Inr ((d # new) ! k, iv2)"
    if "k < length (tok # toks)" for k
  proof (cases k)
    case 0
    with pe show ?thesis by auto
  next
    case (Suc j)
    with that new(3) have "\<exists>iv1 iv2.
           parse_elem (index + 1 + int j) (toks ! j) iv1 = Inr (new ! j, iv2)" by simp
    with Suc show ?thesis by (simp add: algebra_simps)
  qed
  with new(1,2) show ?case
    by (intro exI [of _ "d # new"]) simp
qed

lemma getitem_dims:
  assumes "getitem fmt cls (PyStr s) = Inr D"
  shows "length (dims D) = length (split s)"
    and "k < length (split s) \<Longrightarrow>
         \<exists>iv1 iv2 idx. parse_elem idx (split s ! k) iv1 = Inr (dims D ! k, iv2)"
proof -
  from assms obtain ds iv where pl: "parse_loop 0 (split s) [] None = Inr (ds, iv)"
    and D: "dims D = ds"
    by (auto simp: getitem_def split: sum.splits if_splits)
  from parse_loop_dims [OF pl] D show "length (dims D) = length (split s)" by auto
  from parse_loop_dims [OF pl] D show "k < length (split s) \<Longrightarrow>
         \<exists>iv1 iv2 idx. parse_elem idx (split s ! k) iv1 = Inr (dims D ! k, iv2)"
    by fastforce
qed

text \<open>
  Claim C7 says that every \<open>_FixedDim\<close> of a parsed declaration has a non-negative
  size. \<open>int\<close> reads a sign: the token \<open>-3\<close> parses as a \<open>_FixedDim\<close> of size \<open>-3\<close>.
\<close>

theorem fixed_size_negative_counterexample:
  "getitem ''dtype_and_shape'' f32 (PyStr ''-3'') =
     Inr \<lparr>name = ''f32['' @ [CHR 0x27] @ ''-3'' @ [CHR 0x27] @ '']'',
          dtypes = Dtypes [''float32''], dims = [FixedDim (- 3) False], index_variadic = None\<rparr>
   \<and> \<not> 0 \<le> (- 3 :: int)"
  by (simp add: parse_simps f32_def)

text \<open>
  Claim C7, amended. For every string that parses, the declaration has one token per
  word of the string; its \<open>k\<close>-th token is a \<open>_FixedDim\<close> of size \<open>n\<close> exactly when
  \<open>int\<close> reads \<open>n\<close> from the \<open>k\<close>-th word after a trailing \<open>#\<close> is stripped (and the
  token is broadcastable exactly when there was one); and that size is non-negative
  unless the word begins with a minus sign.
\<close>

theorem fixed_tokens_are_int_tokens:
  assumes "getitem fmt cls (PyStr s) = Inr D" and "k < length (split s)"
  shows "length (dims D) = length (split s)
    \<and> (dims D ! k = FixedDim n b \<longleftrightarrow>
         py_int (if endswith_hash (split s ! k) then butlast (split s ! k) else split s ! k) = Some n
         \<and> b = endswith_hash (split s ! k))
    \<and> (dims D ! k \<noteq> FixedDim n b \<or> 0 \<le> n \<or> (\<exists>cs. split s ! k = CHR ''-'' # cs))"
proof -
  let ?tok = "split s ! k"
  from getitem_dims(2) [OF assms] obtain iv1 iv2 idx where
    pe: "parse_elem idx ?tok iv1 = Inr (dims D ! k, iv2)" by blast
  have fixed: "dims D ! k = FixedDim n b \<longleftrightarrow>
         py_int (if endswith_hash ?tok then butlast ?tok else ?tok) = Some n
         \<and> b = endswith_hash ?tok"
  proof
    assume "dims D ! k = FixedDim n b"
    with pe have "parse_elem idx ?tok iv1 = Inr (FixedDim n b, iv2)" by simp
    then show "py_int (if endswith_hash ?tok then butlast ?tok else ?tok) = Some n
         \<and> b = endswith_hash ?tok"
      by (simp add: parse_elem_Fixed)
  next
    assume r: "py_int (if endswith_hash ?tok then butlast ?tok else ?tok) = Some n
         \<and> b = endswith_hash ?tok"
    from pe have "CHR '','' \<notin> set ?tok" by (rule parse_elem_no_comma)
    with r have "parse_elem idx ?tok iv1 = Inr (FixedDim n b, iv1)"
      by (simp add: parse_elem_Fixed)
    with pe show "dims D ! k = FixedDim n b" by simp
  qed
  have sign: "dims D ! k \<noteq> FixedDim n b \<or> 0 \<le> n \<or> (\<exists>cs. ?tok = CHR ''-'' # cs)"
  proof (cases "dims D ! k = FixedDim n b \<and> n < 0")
    case True
    with fixed have "py_int (if endswith_hash ?tok then butlast ?tok else ?tok) = Some n"
      by simp
    with True obtain cs where
      cs: "(if endswith_hash ?tok then butlast ?tok else ?tok) = CHR ''-'' # cs"
      by (blast dest: py_int_negative)
    then have "\<exists>cs'. ?tok = CHR ''-'' # cs'"
      by (cases ?tok) (auto split: if_splits)
    then show ?thesis by simp
  next
    case False
    then show ?thesis by auto
  qed
  from getitem_dims(1) [OF assms(1)] fixed sign show ?thesis by blast
qed


theorem fixed_tokens_are_int_tokens_witness:
  "\<exists>D. getitem ''dtype_and_shape'' f32 (PyStr ''-3 4#'') = Inr D
     \<and> (0::nat) < length (split ''-3 4#'')
     \<and> length (dims D) = length (split ''-3 4#'')
     \<and> dims D ! 0 = FixedDim (- 3) False
     \<and> py_int (if endswith_hash (split ''-3 4#'' ! 0) then butlast (split ''-3 4#'' ! 0)
                else split ''-3 4#'' ! 0) = Some (- 3)
     \<and> dims D ! 1 = FixedDim 4 True"
proof -
  let ?D = "\<lparr>name = ''f32['' @ [CHR 0x27] @ ''-3 4#'' @ [CHR 0x27] @ '']'',
          dtypes = Dtypes [''float32''],
          dims = [FixedDim (- 3) False, FixedDim 4 True], index_variadic = None\<rparr>"
  have g: "getitem ''dtype_and_shape'' f32 (PyStr ''-3 4#'') = Inr ?D"
    by (simp add: parse_simps f32_def)
  have k: "(0::nat) < length (split ''-3 4#'')"
    by (simp add: split_def is_space_def)
  from fixed_tokens_are_int_tokens [OF g k, of "- 3" False] g k show ?thesis
    by auto
qed


text \<open>
  Claim C6 says that parsing fails with the syntax error of the parser exactly when
  the argument is not a string, some token has a comma, or two tokens are variadic.
  A word that is just \<open>#\<close> is left empty by the stripping, is no integer, and is then
  indexed at 0: \<open>IndexError\<close>. In \<open># a,b\<close> this happens before the word with the
  comma is reached, so the comma is never reported.
\<close>

theorem bare_hash_token_raises_IndexError:
  "getitem_cached initial_state f32 (PyStr ''# a,b'') = (Inl IndexError, initial_state)
   \<and> getitem_cached initial_state f32 (PyStr ''#'') = (Inl IndexError, initial_state)"
  by (simp add: getitem_cached_def initial_state_def parse_simps)

text \<open>
  An unhashable argument never reaches the test for a string: the cache raises
  \<open>TypeError\<close> when it hashes the key.
\<close>

lemma unhashable_argument_raises_TypeError:
  "getitem_cached st cls (PyList xs) = (Inl TypeError, st)"
  by (simp add: getitem_cached_def)

section \<open>The cache\<close>

lemma getitem_Inr:
  assumes "getitem f cls a = Inr r"
  shows "\<exists>s ds iv. a = PyStr s \<and> parse_loop 0 (split s) [] None = Inr (ds, iv)
           \<and> dims r = ds \<and> index_variadic r = iv \<and> dtypes r = cls_dtypes cls"
proof (cases a)
  case (PyStr s)
  show ?thesis
  proof (cases "parse_loop 0 (split s) [] None")
    case (Inl e)
    with assms PyStr show ?thesis by (simp add: getitem_def)
  next
    case (Inr p)
    obtain ds iv where p: "p = (ds, iv)" by (cases p)
    from assms PyStr Inr p have "dims r = ds \<and> index_variadic r = iv \<and> dtypes r = cls_dtypes cls"
      by (auto simp add: getitem_def split: if_splits)
    with PyStr Inr p show ?thesis by simp
  qed
qed (use assms in \<open>simp_all add: getitem_def\<close>)

lemma getitem_format_independent:
  assumes "getitem f1 cls a = Inr r1" and "getitem f2 cls a = Inr r2"
  shows "dims r1 = dims r2 \<and> index_variadic r1 = index_variadic r2 \<and> dtypes r1 = dtypes r2"
  using getitem_Inr [OF assms(1)] getitem_Inr [OF assms(2)] by auto


lemma getitem_cached_cases:
  "snd (getitem_cached st cls a) = st
   \<or> (\<exists>r. getitem (array_name_format st) cls a = Inr r
          \<and> snd (getitem_cached st cls a) = st\<lparr>cache := (cache st)((cls, a) \<mapsto> r)\<rparr>)"
proof (cases "hashable a")
  case False
  then show ?thesis by (simp add: getitem_cached_def)
next
  case True
  show ?thesis
  proof (cases "cache st (cls, a)")
    case (Some r)
    with True show ?thesis by (simp add: getitem_cached_def)
  next
    case None
    show ?thesis
    proof (cases "getitem (array_name_format st) cls a")
      case (Inl e)
      with True None show ?thesis by (simp add: getitem_cached_def)
    next
      case (Inr r)
      with True None show ?thesis by (simp add: getitem_cached_def)
    qed
  qed
qed

lemma reachable_cache:
  "reachable st \<Longrightarrow> cache st (cls, a) = Some r \<Longrightarrow> \<exists>f. getitem f cls a = Inr r"
proof (induction arbitrary: cls a r rule: reachable.induct)
  case reach_init
  then show ?case by (simp add: initial_state_def)
next
  case (reach_set st v)
  then show ?case by (simp add: set_array_name_format_def)
next
  case (reach_getitem st cls' dim_str)
  from getitem_cached_cases [of st cls' dim_str] show ?case
  proof
    assume "snd (getitem_cached st cls' dim_str) = st"
    with reach_getitem show ?thesis by simp
  next
    assume "\<exists>r. getitem (array_name_format st) cls' dim_str = Inr r
          \<and> snd (getitem_cached st cls' dim_str) = st\<lparr>cache := (cache st)((cls', dim_str) \<mapsto> r)\<rparr>"
    then obtain r' where r': "getitem (array_name_format st) cls' dim_str = Inr r'"
      and c: "snd (getitem_cached st cls' dim_str) = st\<lparr>cache := (cache st)((cls', dim_str) \<mapsto> r')\<rparr>"
      by blast
    show ?thesis
    proof (cases "(cls, a) = (cls', dim_str)")
      case True
      with c reach_getitem.prems have "r = r'" by simp
      with r' True show ?thesis by blast
    next
      case False
      with c reach_getitem.prems have "cache st (cls, a) = Some r"
        by (auto split: if_splits)
      then show ?thesis by (rule reach_getitem.IH)
    qed
  qed
qed

lemma getitem_cached_result:
  assumes "reachable st" and "fst (getitem_cached st cls a) = Inr r"
  shows "\<exists>f. getitem f cls a = Inr r"
proof (cases "cache st (cls, a)")
  case (Some r')
  with assms(2) have "r' = r" by (simp add: getitem_cached_def split: if_splits)
  with Some reachable_cache [OF assms(1)] show ?thesis by blast
next
  case None
  with assms(2) have "getitem (array_name_format st) cls a = Inr r"
    by (cases "getitem (array_name_format st) cls a")
       (simp_all add: getitem_cached_def split: if_splits)
  then show ?thesis ..
qed

lemma instancecheck_cong:
  assumes "dims D1 = dims D2" "index_variadic D1 = index_variadic D2" "dtypes D1 = dtypes D2"
  shows "instancecheck D1 ob ms = instancecheck D2 ob ms"
  unfolding instancecheck_def check_shape_def assms by (rule refl)

text \<open>
  Claim C8. In any two module states a program can reach (whatever was parsed
  before, and whatever the name format was set to), two calls with the same dtype
  class and the same string that both return a declaration return declarations with
  the same tokens, the same variadic index and the same dtypes, hence with the same
  result of \<open>__instancecheck__\<close> on every object and memo stack.
\<close>

theorem parse_deterministic:
  assumes "reachable st1" and "reachable st2"
    and "fst (getitem_cached st1 cls (PyStr s)) = Inr D1"
    and "fst (getitem_cached st2 cls (PyStr s)) = Inr D2"
  shows "dims D1 = dims D2 \<and> index_variadic D1 = index_variadic D2 \<and> dtypes D1 = dtypes D2
       \<and> instancecheck D1 ob ms = instancecheck D2 ob ms"
proof -
  from getitem_cached_result [OF assms(1,3)] obtain f1 where "getitem f1 cls (PyStr s) = Inr D1" ..
  moreover from getitem_cached_result [OF assms(2,4)] obtain f2 where "getitem f2 cls (PyStr s) = Inr D2" ..
  ultimately have eq: "dims D1 = dims D2 \<and> index_variadic D1 = index_variadic D2 \<and> dtypes D1 = dtypes D2"
    by (rule getitem_format_independent)
  with instancecheck_cong [of D1 D2 ob ms] show ?thesis by blast
qed

theorem parse_deterministic_witness:
  "reachable initial_state
   \<and> reachable (set_array_name_format ''array'' initial_state)
   \<and> fst (getitem_cached initial_state f32 (PyStr ''n n'')) =
        Inr \<lparr>name = ''f32['' @ [CHR 0x27] @ ''n n'' @ [CHR 0x27] @ '']'',
             dtypes = Dtypes [''float32''],
             dims = [NamedDim ''n'' False, NamedDim ''n'' False], index_variadic = None\<rparr>
   \<and> fst (getitem_cached (set_array_name_format ''array'' initial_state) f32 (PyStr ''n n'')) =
        Inr \<lparr>name = ''Array'', dtypes = Dtypes [''float32''],
             dims = [NamedDim ''n'' False, NamedDim ''n'' False], index_variadic = None\<rparr>
   \<and> instancecheck \<lparr>name = ''f32['' @ [CHR 0x27] @ ''n n'' @ [CHR 0x27] @ '']'',
             dtypes = Dtypes [''float32''],
             dims = [NamedDim ''n'' False, NamedDim ''n'' False], index_variadic = None\<rparr>
          (NdArray [3, 3] ''float32'') [Map.empty]
       = instancecheck \<lparr>name = ''Array'', dtypes = Dtypes [''float32''],
             dims = [NamedDim ''n'' False, NamedDim ''n'' False], index_variadic = None\<rparr>
          (NdArray [3, 3] ''float32'') [Map.empty]"
proof -
  have h1: "reachable initial_state" by (rule reach_init)
  have h2: "reachable (set_array_name_format ''array'' initial_state)"
    by (rule reach_set [OF reach_init])
  have h3: "fst (getitem_cached initial_state f32 (PyStr ''n n'')) =
        Inr \<lparr>name = ''f32['' @ [CHR 0x27] @ ''n n'' @ [CHR 0x27] @ '']'',
             dtypes = Dtypes [''float32''],
             dims = [NamedDim ''n'' False, NamedDim ''n'' False], index_variadic = None\<rparr>"
    by (simp add: getitem_cached_def initial_state_def getitem_n_n)
  have h4: "fst (getitem_cached (set_array_name_format ''array'' initial_state) f32 (PyStr ''n n'')) =
        Inr \<lparr>name = ''Array'', dtypes = Dtypes [''float32''],
             dims = [NamedDim ''n'' False, NamedDim ''n'' False], index_variadic = None\<rparr>"
    by (simp add: getitem_cached_def initial_state_def set_array_name_format_def
          parse_simps f32_def)
  from parse_deterministic [OF h1 h2 h3 h4, of "NdArray [3, 3] ''float32''" "[Map.empty]"]
    h1 h2 h3 h4
  show ?thesis by blast
qed

text \<open>
  While the name format has one of its two recognised values, the whole outcome of a
  call is a function of the dtype class and the string alone, whatever the cache
  holds: the error of the token loop, or a declaration with the tokens and variadic
  index the loop computed.
\<close>

lemma getitem_cached_outcome:
  assumes "reachable st"
    and "array_name_format st = ''dtype_and_shape'' \<or> array_name_format st = ''array''"
  shows "map_sum id (\<lambda>D. (dims D, index_variadic D, dtypes D))
           (fst (getitem_cached st cls (PyStr s)))
         = map_sum id (\<lambda>(ds, iv). (ds, iv, cls_dtypes cls)) (parse_loop 0 (split s) [] None)"
proof (cases "cache st (cls, PyStr s)")
  case (Some r)
  from reachable_cache [OF assms(1) Some] obtain f where "getitem f cls (PyStr s) = Inr r" ..
  from getitem_Inr [OF this] obtain ds iv where
    "parse_loop 0 (split s) [] None = Inr (ds, iv)" "dims r = ds" "index_variadic r = iv"
    "dtypes r = cls_dtypes cls" by auto
  with Some show ?thesis by (simp add: getitem_cached_def)
next
  case None
  show ?thesis
  proof (cases "parse_loop 0 (split s) [] None")
    case (Inl e)
    with None show ?thesis by (simp add: getitem_cached_def getitem_def)
  next
    case (Inr p)
    obtain ds iv where p: "p = (ds, iv)" by (cases p)
    from assms(2) show ?thesis
    proof
      assume "array_name_format st = ''dtype_and_shape''"
      with None Inr p show ?thesis by (simp add: getitem_cached_def getitem_def)
    next
      assume "array_name_format st = ''array''"
      with None Inr p show ?thesis by (simp add: getitem_cached_def getitem_def)
    qed
  qed
qed

text \<open>
  The cache keeps a declaration across a change of the name format: after \<open>n n\<close>
  was parsed, the same call succeeds under a format the body rejects.
\<close>

lemma cached_declaration_outlives_name_format:
  "fst (getitem_cached
         (set_array_name_format ''bogus'' (snd (getitem_cached initial_state f32 (PyStr ''n n''))))
         f32 (PyStr ''n n'')) =
     Inr \<lparr>name = ''f32['' @ [CHR 0x27] @ ''n n'' @ [CHR 0x27] @ '']'',
          dtypes = Dtypes [''float32''],
          dims = [NamedDim ''n'' False, NamedDim ''n'' False], index_variadic = None\<rparr>
   \<and> getitem ''bogus'' f32 (PyStr ''n n'') = Inl (ValueError (Name_format_not_recognised ''bogus''))"
proof
  show "getitem ''bogus'' f32 (PyStr ''n n'') = Inl (ValueError (Name_format_not_recognised ''bogus''))"
    by (simp add: parse_simps f32_def)
  show "fst (getitem_cached
         (set_array_name_format ''bogus'' (snd (getitem_cached initial_state f32 (PyStr ''n n''))))
         f32 (PyStr ''n n'')) =
     Inr \<lparr>name = ''f32['' @ [CHR 0x27] @ ''n n'' @ [CHR 0x27] @ '']'',
          dtypes = Dtypes [''float32''],
          dims = [NamedDim ''n'' False, NamedDim ''n'' False], index_variadic = None\<rparr>"
    by (simp add: getitem_cached_def initial_state_def set_array_name_format_def getitem_n_n)
qed

end
